theory Spec2Isabelle
  imports Main "HOL-Library.Sublist" "HOL-Library.AList"
begin

text \<open>
  A shallow embedding of the indexing and query engine of the librarian server:
  \<open>models.py\<close> (file types, the classifier, the index and its methods), \<open>server.py\<close> (the
  three search tools) and \<open>indexer.py\<close> (ignore rules, the scan, saving and loading).
  The libraries that the code calls are not part of it. The regular-expression engine,
  the matcher of \<open>pathspec\<close>, the SHA-256 digest, the parser of ISO dates and the
  validation of the model class are parameters of the functions that call them. What
  \<open>model_dump\<close>, \<open>yaml.dump\<close> and \<open>yaml.safe_load\<close> do with the values of an index is written
  out where saving and loading are defined.
\<close>

section \<open>Python strings and slices\<close>

text \<open>
  Strings are lists of characters, and a character is a code point below 256; the code
  points from 256 on are not expressible. \<open>str.lower()\<close> on these code points: the
  letters \<open>A\<close>..\<open>Z\<close> (65..90) and the upper-case letters of Latin-1 (192..222 without the
  multiplication sign 215) move up by 32; every other character is a fixed point.
\<close>

definition lower_char :: "char \<Rightarrow> char" where
  "lower_char c =
     (let n = (of_char c :: nat)
      in if (65 \<le> n \<and> n \<le> 90) \<or> (192 \<le> n \<and> n \<le> 222 \<and> n \<noteq> 215)
         then char_of (n + 32) else c)"

definition lower :: "string \<Rightarrow> string" where
  "lower s = map lower_char s"

text \<open>\<open>p in s\<close> for two strings: \<open>p\<close> occurs in \<open>s\<close> as a contiguous substring.\<close>

fun is_substring :: "string \<Rightarrow> string \<Rightarrow> bool" where
  "is_substring p [] = (p = [])"
| "is_substring p (c # s) = (prefix p (c # s) \<or> is_substring p s)"

text \<open>\<open>s.startswith(p)\<close>.\<close>

definition startswith :: "string \<Rightarrow> string \<Rightarrow> bool" where
  "startswith s p = prefix p s"

text \<open>
  \<open>s.rfind(c)\<close> for a single character: the index of the last occurrence, or \<open>-1\<close>.
\<close>

definition rfind :: "string \<Rightarrow> char \<Rightarrow> int" where
  "rfind s c =
     (case filter (\<lambda>i. s ! i = c) (rev [0..<length s]) of
        [] \<Rightarrow> - 1
      | i # _ \<Rightarrow> int i)"

text \<open>
  The slice \<open>xs[:n]\<close> for an arbitrary Python integer \<open>n\<close>: the first \<open>n\<close> elements when
  \<open>n\<close> is non-negative, and all but the last \<open>-n\<close> elements when \<open>n\<close> is negative.
\<close>

definition slice_to :: "'a list \<Rightarrow> int \<Rightarrow> 'a list" where
  "slice_to xs n = (if 0 \<le> n then take (nat n) xs else take (length xs - nat (- n)) xs)"

text \<open>\<open>str(n)\<close> for an integer, as the f-strings of the server print sizes and counts.\<close>

definition digit_char :: "nat \<Rightarrow> char" where
  "digit_char d = char_of (48 + d)"

fun str_nat :: "nat \<Rightarrow> string" where
  "str_nat n = (if n < 10 then [digit_char n] else str_nat (n div 10) @ [digit_char (n mod 10)])"

declare str_nat.simps [simp del]

definition str_int :: "int \<Rightarrow> string" where
  "str_int i = (if i < 0 then CHR ''-'' # str_nat (nat (- i)) else str_nat (nat i))"

text \<open>\<open>sep.join(xs)\<close>.\<close>

fun join :: "string \<Rightarrow> string list \<Rightarrow> string" where
  "join sep [] = []"
| "join sep [x] = x"
| "join sep (x # y # ys) = x @ sep @ join sep (y # ys)"

text \<open>
  Exceptions are values; each carries the text that \<open>str(e)\<close> gives, in the wording of
  CPython 3.11 where the model raises it. \<open>PermissionError\<close> is kept apart from the other
  errors of the operating system, because the scan catches it alone. An error of the
  YAML constructor carries its problem text; the position in the file, which \<open>str(e)\<close>
  adds to it, is not kept.
\<close>

datatype exc =
    OSError string
  | PermissionError string
  | OverflowError string
  | YAMLError string
  | ConstructorError string
  | TypeError string
  | ValueError string
  | KeyError string
  | ValidationError string

fun exc_str :: "exc \<Rightarrow> string" where
  "exc_str (OSError m) = m"
| "exc_str (PermissionError m) = m"
| "exc_str (OverflowError m) = m"
| "exc_str (YAMLError m) = m"
| "exc_str (ConstructorError m) = m"
| "exc_str (TypeError m) = m"
| "exc_str (ValueError m) = m"
| "exc_str (KeyError m) = m"
| "exc_str (ValidationError m) = m"

fun is_permission_error :: "exc \<Rightarrow> bool" where
  "is_permission_error (PermissionError m) = True"
| "is_permission_error e = False"

text \<open>Sequencing of steps that may raise: the first exception ends the sequence.\<close>

definition bind_exc :: "exc + 'a \<Rightarrow> ('a \<Rightarrow> exc + 'b) \<Rightarrow> exc + 'b" where
  "bind_exc m f = (case m of Inl e \<Rightarrow> Inl e | Inr x \<Rightarrow> f x)"


section \<open>models.py\<close>

datatype FileType =
    PYTHON | JAVASCRIPT | TYPESCRIPT | KOTLIN | JAVA | GO | RUST | CPP | C | CSHARP
  | RUBY | PHP | SWIFT | MARKDOWN | JSON | YAML | XML | HTML | CSS | OTHER

text \<open>The members of the enumeration in declaration order, and the value of each.\<close>

definition FileType_members :: "FileType list" where
  "FileType_members =
     [PYTHON, JAVASCRIPT, TYPESCRIPT, KOTLIN, JAVA, GO, RUST, CPP, C, CSHARP,
      RUBY, PHP, SWIFT, MARKDOWN, JSON, YAML, XML, HTML, CSS, OTHER]"

fun FileType_value :: "FileType \<Rightarrow> string" where
  "FileType_value PYTHON = ''python''"
| "FileType_value JAVASCRIPT = ''javascript''"
| "FileType_value TYPESCRIPT = ''typescript''"
| "FileType_value KOTLIN = ''kotlin''"
| "FileType_value JAVA = ''java''"
| "FileType_value GO = ''go''"
| "FileType_value RUST = ''rust''"
| "FileType_value CPP = ''cpp''"
| "FileType_value C = ''c''"
| "FileType_value CSHARP = ''csharp''"
| "FileType_value RUBY = ''ruby''"
| "FileType_value PHP = ''php''"
| "FileType_value SWIFT = ''swift''"
| "FileType_value MARKDOWN = ''markdown''"
| "FileType_value JSON = ''json''"
| "FileType_value YAML = ''yaml''"
| "FileType_value XML = ''xml''"
| "FileType_value HTML = ''html''"
| "FileType_value CSS = ''css''"
| "FileType_value OTHER = ''other''"

text \<open>
  The call \<open>FileType(s)\<close>: the member whose value is \<open>s\<close>, or \<open>ValueError\<close> (here \<open>None\<close>).
\<close>

definition FileType_of_value :: "string \<Rightarrow> FileType option" where
  "FileType_of_value s = find (\<lambda>t. FileType_value t = s) FileType_members"

text \<open>The dictionary \<open>FILE_TYPE_EXTENSIONS\<close>, in insertion order.\<close>

definition FILE_TYPE_EXTENSIONS :: "(FileType \<times> string list) list" where
  "FILE_TYPE_EXTENSIONS =
     [(PYTHON, [''.py'', ''.pyi'', ''.pyx'', ''.pxd'']),
      (JAVASCRIPT, [''.js'', ''.mjs'', ''.cjs'']),
      (TYPESCRIPT, [''.ts'', ''.tsx'', ''.d.ts'']),
      (KOTLIN, [''.kt'', ''.kts'']),
      (JAVA, [''.java'']),
      (GO, [''.go'']),
      (RUST, [''.rs'']),
      (CPP, [''.cpp'', ''.cxx'', ''.cc'', ''.hpp'', ''.hxx'', ''.h++'']),
      (C, [''.c'', ''.h'']),
      (CSHARP, [''.cs'']),
      (RUBY, [''.rb'']),
      (PHP, [''.php'']),
      (SWIFT, [''.swift'']),
      (MARKDOWN, [''.md'', ''.markdown'']),
      (JSON, [''.json'']),
      (YAML, [''.yml'', ''.yaml'']),
      (XML, [''.xml'']),
      (HTML, [''.html'', ''.htm'']),
      (CSS, [''.css'', ''.scss'', ''.sass'', ''.less''])]"

text \<open>
  A \<open>pathlib\<close> path is the list of its parts; an absolute POSIX path starts with the
  part \<open>/\<close>. \<open>name\<close> is the final component (empty for the root and for the empty
  path), \<open>suffix\<close> is the part of the name from its last dot, provided that dot is
  neither the first nor the last character of the name.
\<close>

type_synonym pypath = "string list"

definition name :: "pypath \<Rightarrow> string" where
  "name p = (case rev p of [] \<Rightarrow> [] | x # xs \<Rightarrow> if xs = [] \<and> x = ''/'' then [] else x)"

definition suffix_of :: "pypath \<Rightarrow> string" where
  "suffix_of p =
     (let nm = name p; i = rfind nm CHR ''.''
      in if 0 < i \<and> i < int (length nm) - 1 then drop (nat i) nm else [])"

text \<open>
  \<open>get_file_type\<close>: the loop over the items of \<open>FILE_TYPE_EXTENSIONS\<close> returns at the
  first type whose extension list contains the lower-cased suffix.
\<close>

fun get_file_type_loop :: "string \<Rightarrow> (FileType \<times> string list) list \<Rightarrow> FileType" where
  "get_file_type_loop ext [] = OTHER"
| "get_file_type_loop ext ((file_type, extensions) # rest) =
     (if ext \<in> set extensions then file_type else get_file_type_loop ext rest)"

definition get_file_type :: "pypath \<Rightarrow> FileType" where
  "get_file_type file_path = get_file_type_loop (lower (suffix_of file_path)) FILE_TYPE_EXTENSIONS"

text \<open>A naive \<open>datetime\<close>: year, month, day, hour, minute, second, microsecond.\<close>

datatype datetime = Datetime int int int int int int int

record FileEntry =
  path :: string
  type :: FileType
  size_bytes :: int
  modified :: datetime
  hash :: string

record RepositoryInfo =
  repository_path :: string
  total_files :: int

text \<open>
  \<open>WorkspaceIndex.index\<close> is a dictionary from strings to lists of entries, kept as an
  association list in insertion order; its default value is \<open>{"files": []}\<close>.
\<close>

record WorkspaceIndex =
  version :: string
  last_updated :: datetime
  repository :: RepositoryInfo
  index :: "(string \<times> FileEntry list) list"
  file_types :: "(FileType \<times> string list) list"

text \<open>\<open>self.index.get("files", [])\<close>.\<close>

definition files_of :: "WorkspaceIndex \<Rightarrow> FileEntry list" where
  "files_of w = (case map_of (index w) ''files'' of None \<Rightarrow> [] | Some fs \<Rightarrow> fs)"

definition add_file :: "WorkspaceIndex \<Rightarrow> FileEntry \<Rightarrow> WorkspaceIndex" where
  "add_file w file_entry =
     (let index1 = (case map_of (index w) ''files'' of
                      None \<Rightarrow> AList.update ''files'' [] (index w)
                    | Some _ \<Rightarrow> index w);
          files1 = (case map_of index1 ''files'' of None \<Rightarrow> [] | Some fs \<Rightarrow> fs) @ [file_entry];
          index2 = AList.update ''files'' files1 index1
      in w\<lparr>index := index2,
           repository := (repository w)\<lparr>total_files := int (length files1)\<rparr>\<rparr>)"

definition get_files_by_type :: "WorkspaceIndex \<Rightarrow> FileType \<Rightarrow> FileEntry list" where
  "get_files_by_type w file_type = filter (\<lambda>f. type f = file_type) (files_of w)"

definition search_files :: "WorkspaceIndex \<Rightarrow> string \<Rightarrow> bool \<Rightarrow> FileEntry list" where
  "search_files w pattern case_sensitive =
     (if \<not> case_sensitive
      then filter (\<lambda>f. is_substring (lower pattern) (lower (path f))) (files_of w)
      else filter (\<lambda>f. is_substring pattern (path f)) (files_of w))"

section \<open>server.py: the query tools\<close>

text \<open>
  The tools read the index held by the server (\<open>self.index\<close>, loaded at start-up) and
  return text. Each tool is modelled in two stages: the entries it selects (or the error
  text it returns early), and the text it prints for them.
\<close>

definition squote :: string where
  "squote = [CHR 0x27]"

definition newline :: string where
  "newline = [CHR 0x0A]"

definition search_files_tool_results ::
  "WorkspaceIndex \<Rightarrow> string \<Rightarrow> bool \<Rightarrow> int \<Rightarrow> FileEntry list" where
  "search_files_tool_results w query case_sensitive limit =
     slice_to (search_files w query case_sensitive) limit"

definition entry_line :: "FileEntry \<Rightarrow> string" where
  "entry_line f =
     ''- '' @ path f @ '' ('' @ FileType_value (type f) @ '', '' @ str_int (size_bytes f)
       @ '' bytes)'' @ newline"

definition search_files_tool :: "WorkspaceIndex \<Rightarrow> string \<Rightarrow> bool \<Rightarrow> int \<Rightarrow> string" where
  "search_files_tool w query case_sensitive limit =
     (let results = search_files_tool_results w query case_sensitive limit
      in if results = [] then ''No files found matching the pattern.''
         else ''Found '' @ str_nat (length results) @ '' file(s) matching '' @ squote @ query
                @ squote @ '':'' @ newline @ newline @ concat (map entry_line results))"

text \<open>
  The regular-expression engine (\<open>re\<close>) is a parameter. \<open>re_compile pattern ignorecase\<close>
  is the outcome of \<open>re.compile\<close>: it raises \<open>re.error\<close> with a diagnostic, it raises
  another exception (an \<open>OverflowError\<close> for a repetition count that is too large, for
  one), or it returns the compiled pattern. \<open>re_search r s\<close> tells whether \<open>r.search(s)\<close>
  finds a match. The tool catches \<open>re.error\<close> only; any other exception leaves it.
\<close>

datatype 'r re_outcome = ReError string | ReRaises exc | RePattern 'r

definition search_files_regex_results ::
  "('r \<Rightarrow> string \<Rightarrow> bool) \<Rightarrow> WorkspaceIndex \<Rightarrow> 'r \<Rightarrow> int \<Rightarrow> FileEntry list" where
  "search_files_regex_results re_search w regex limit =
     slice_to (filter (\<lambda>f. re_search regex (path f)) (files_of w)) limit"

definition regex_output :: "string \<Rightarrow> FileEntry list \<Rightarrow> string" where
  "regex_output pattern results =
     (if results = [] then ''No files found matching the regex pattern.''
      else ''Found '' @ str_nat (length results) @ '' file(s) matching regex '' @ squote
             @ pattern @ squote @ '':'' @ newline @ newline
             @ concat (map entry_line results))"

definition search_files_regex ::
  "(string \<Rightarrow> bool \<Rightarrow> 'r re_outcome) \<Rightarrow> ('r \<Rightarrow> string \<Rightarrow> bool) \<Rightarrow>
   WorkspaceIndex \<Rightarrow> string \<Rightarrow> bool \<Rightarrow> int \<Rightarrow> exc + string" where
  "search_files_regex re_compile re_search w pattern case_sensitive limit =
     (case re_compile pattern (\<not> case_sensitive) of
        ReError e \<Rightarrow> Inr (''Invalid regex pattern: '' @ e)
      | ReRaises x \<Rightarrow> Inl x
      | RePattern regex \<Rightarrow>
          Inr (regex_output pattern (search_files_regex_results re_search w regex limit)))"

text \<open>
  \<open>search_by_type\<close>: the type name is lower-cased and looked up among the values of
  \<open>FileType\<close>; the optional pattern filters only when it is a non-empty string.
\<close>

definition search_by_type_results ::
  "WorkspaceIndex \<Rightarrow> string \<Rightarrow> string option \<Rightarrow> int \<Rightarrow> string + FileEntry list" where
  "search_by_type_results w file_type pattern limit =
     (case FileType_of_value (lower file_type) of
        None \<Rightarrow>
          Inl (''Invalid file type. Valid types are: ''
                 @ join '', '' (map FileType_value FileType_members))
      | Some ftype \<Rightarrow>
          (let results = get_files_by_type w ftype;
               results1 = (case pattern of
                             None \<Rightarrow> results
                           | Some p \<Rightarrow>
                               if p = [] then results
                               else filter (\<lambda>f. is_substring (lower p) (lower (path f))) results)
           in Inr (slice_to results1 limit)))"

definition type_line :: "FileEntry \<Rightarrow> string" where
  "type_line f = ''- '' @ path f @ '' ('' @ str_int (size_bytes f) @ '' bytes)'' @ newline"

definition search_by_type ::
  "WorkspaceIndex \<Rightarrow> string \<Rightarrow> string option \<Rightarrow> int \<Rightarrow> string" where
  "search_by_type w file_type pattern limit =
     (case search_by_type_results w file_type pattern limit of
        Inl msg \<Rightarrow> msg
      | Inr results \<Rightarrow>
          if results = [] then ''No '' @ file_type @ '' files found.''
          else ''Found '' @ str_nat (length results) @ '' '' @ file_type @ '' file(s):''
                 @ newline @ newline @ concat (map type_line results))"

text \<open>The index of the server tests: four entries, added one at a time.\<close>

definition test_files :: "FileEntry list" where
  "test_files =
     [\<lparr>path = ''src/main.py'', type = PYTHON, size_bytes = 1024,
        modified = Datetime 2024 1 1 12 0 0 0, hash = ''abc123''\<rparr>,
      \<lparr>path = ''src/utils.py'', type = PYTHON, size_bytes = 512,
        modified = Datetime 2024 1 1 12 0 0 0, hash = ''def456''\<rparr>,
      \<lparr>path = ''frontend/app.js'', type = JAVASCRIPT, size_bytes = 2048,
        modified = Datetime 2024 1 1 12 0 0 0, hash = ''ghi789''\<rparr>,
      \<lparr>path = ''frontend/App.tsx'', type = TYPESCRIPT, size_bytes = 3072,
        modified = Datetime 2024 1 1 12 0 0 0, hash = ''jkl012''\<rparr>]"

definition test_index :: WorkspaceIndex where
  "test_index =
     foldl add_file
       \<lparr>version = ''1.0'', last_updated = Datetime 2024 1 1 12 0 0 0,
        repository = \<lparr>repository_path = ''/test/repo'', total_files = 4\<rparr>,
        index = [(''files'', [])], file_types = FILE_TYPE_EXTENSIONS\<rparr>
       test_files"

section \<open>indexer.py\<close>

subsection \<open>Files and paths\<close>

text \<open>
  What a location of the file system holds. \<open>path.exists()\<close> is false for a missing
  location and raises for an inaccessible one (a \<open>PermissionError\<close> of \<open>stat\<close>, for one);
  otherwise it is true, and then \<open>open\<close> or the decoder rejects the file with an
  exception, or its content is read.
\<close>

datatype 'a file_state = Missing | Inaccessible exc | Unreadable exc | Holds 'a

definition anchored :: "pypath \<Rightarrow> bool" where
  "anchored p = (case p of [] \<Rightarrow> False | x # _ \<Rightarrow> x = ''/'')"

text \<open>
  \<open>path.relative_to(other)\<close>: the parts of \<open>path\<close> below \<open>other\<close> when \<open>other\<close> is \<open>path\<close> or
  one of its parents by the parts as written (a part \<open>..\<close> is a part like any other),
  and \<open>ValueError\<close>, here \<open>None\<close>, otherwise. Both callers catch the exception and do not
  look at it.
\<close>

definition relative_to :: "pypath \<Rightarrow> pypath \<Rightarrow> pypath option" where
  "relative_to p other =
     (if prefix other p \<and> \<not> (other = [] \<and> anchored p) then Some (drop (length other) p)
      else None)"

text \<open>\<open>str(path)\<close> and \<open>path.absolute()\<close> for POSIX paths.\<close>

definition str_path :: "pypath \<Rightarrow> string" where
  "str_path p =
     (case p of
        [] \<Rightarrow> ''.''
      | x # xs \<Rightarrow> if x = ''/'' then ''/'' @ join ''/'' xs else join ''/'' p)"

definition absolute :: "pypath \<Rightarrow> pypath \<Rightarrow> pypath" where
  "absolute cwd p = (if anchored p then p else cwd @ p)"

text \<open>
  \<open>str.strip()\<close>: the whitespace characters are removed at both ends. Below 256 these
  are the space, 9..13, 28..31, the next-line control 133 and the no-break space 160.
\<close>

definition is_space :: "char \<Rightarrow> bool" where
  "is_space c =
     (c \<in> set [CHR '' '', CHR 0x09, CHR 0x0A, CHR 0x0B, CHR 0x0C, CHR 0x0D,
               CHR 0x1C, CHR 0x1D, CHR 0x1E, CHR 0x1F, CHR 0x85, CHR 0xA0])"

definition strip :: "string \<Rightarrow> string" where
  "strip s = rev (dropWhile is_space (rev (dropWhile is_space s)))"


subsection \<open>The indexer and its ignore rules\<close>

text \<open>
  \<open>_gitignore_spec\<close> is \<open>None\<close> or a \<open>PathSpec\<close>, kept as the list of its pattern lines. The
  matcher of the \<open>pathspec\<close> library is a parameter: \<open>match_file patterns s\<close> tells whether
  the compiled patterns match the path text \<open>s\<close>.
\<close>

record FileIndexer =
  repo_path :: pypath
  index_path :: pypath
  gitignore_spec :: "string list option"

text \<open>
  \<open>_load_gitignore\<close>, from the state of the file \<open>.gitignore\<close> (its lines, each with its
  line end): an exception of \<open>exists\<close> or of \<open>open\<close> is not caught.
\<close>

definition load_gitignore :: "string list file_state \<Rightarrow> exc + string list option" where
  "load_gitignore gitignore =
     (case gitignore of
        Missing \<Rightarrow> Inr None
      | Inaccessible e \<Rightarrow> Inl e
      | Unreadable e \<Rightarrow> Inl e
      | Holds lines \<Rightarrow>
          Inr (Some (map strip (filter (\<lambda>line. strip line \<noteq> [] \<and> \<not> startswith line ''#'') lines)
                     @ [''.git/'', ''.claude/''])))"

text \<open>\<open>FileIndexer(repo_path)\<close> with an explicit repository path.\<close>

definition FileIndexer_init :: "pypath \<Rightarrow> string list file_state \<Rightarrow> exc + FileIndexer" where
  "FileIndexer_init root gitignore =
     bind_exc (load_gitignore gitignore)
       (\<lambda>spec. Inr \<lparr>repo_path = root,
                    index_path = root @ [''.claude'', ''workspace'', ''workspace.yml''],
                    gitignore_spec = spec\<rparr>)"

text \<open>
  \<open>_should_ignore\<close>. The truth value of \<open>self._gitignore_spec\<close>: \<open>None\<close> is false, and a
  \<open>PathSpec\<close> is true when it has at least one pattern (its length). In that branch the
  \<open>ValueError\<close> of \<open>relative_to\<close> is caught and the path is ignored. The fallback branch
  looks at the parts of the path as given.
\<close>

definition ignore_dirs :: "string list" where
  "ignore_dirs = [''node_modules'', ''__pycache__'', ''venv'', ''env'', ''build'', ''dist'', ''target'']"

definition should_ignore ::
  "(string list \<Rightarrow> string \<Rightarrow> bool) \<Rightarrow> FileIndexer \<Rightarrow> pypath \<Rightarrow> bool" where
  "should_ignore match_file ix p =
     (case gitignore_spec ix of
        Some patterns \<Rightarrow>
          if patterns \<noteq> [] then
            (case relative_to p (repo_path ix) of
               Some rel_path \<Rightarrow> match_file patterns (str_path rel_path)
             | None \<Rightarrow> True)
          else if list_ex (\<lambda>part. startswith part ''.'') p then True
          else if list_ex (\<lambda>part. part \<in> set ignore_dirs) p then True
          else False
      | None \<Rightarrow>
          if list_ex (\<lambda>part. startswith part ''.'') p then True
          else if list_ex (\<lambda>part. part \<in> set ignore_dirs) p then True
          else False)"


subsection \<open>Scanning the repository\<close>

text \<open>
  The tree below the repository root, as the scan meets it. For a regular file
  (\<open>is_file()\<close> is true): the result of \<open>stat\<close> (size and modification time, or nothing
  when \<open>stat\<close> or the conversion of the time raises) and its content (nothing when it
  cannot be read). For a directory (\<open>is_dir()\<close> is true): the outcome of listing it, an
  exception or its entries by name. Then what is neither, and an item for which
  \<open>is_file()\<close> itself raises (a \<open>PermissionError\<close> of \<open>stat\<close>, for one).
\<close>

datatype fsnode =
    RegularFile "(int \<times> datetime) option" "string option"
  | Directory "exc + (string \<times> fsnode) list"
  | Special
  | Unknowable exc

text \<open>\<open>_hash_file\<close>, over a parameter for the SHA-256 digest in hexadecimal.\<close>

definition hash_file :: "(string \<Rightarrow> string) \<Rightarrow> string option \<Rightarrow> string" where
  "hash_file sha256_hex content = (case content of None \<Rightarrow> [] | Some bytes \<Rightarrow> sha256_hex bytes)"

text \<open>
  The loop of \<open>_scan_directory\<close> over the items of a directory, with the files found so
  far. An ignored item is skipped; a file that cannot be processed is skipped; a
  directory is scanned in turn. The \<open>try\<close> around the loop catches \<open>PermissionError\<close> only:
  when \<open>is_file()\<close> raises it the loop ends with the files found so far, when the listing
  of a subdirectory raises it that scan returns no file, and every other exception
  leaves the scan.
\<close>

fun scan_items ::
  "(string list \<Rightarrow> string \<Rightarrow> bool) \<Rightarrow> (string \<Rightarrow> string) \<Rightarrow> FileIndexer \<Rightarrow> pypath
   \<Rightarrow> FileEntry list \<Rightarrow> (string \<times> fsnode) list \<Rightarrow> exc + FileEntry list" where
  "scan_items match_file sha256_hex ix directory files [] = Inr files"
| "scan_items match_file sha256_hex ix directory files (entry # rest) =
     (let item = directory @ [fst entry] in
      if should_ignore match_file ix item
      then scan_items match_file sha256_hex ix directory files rest
      else (case snd entry of
              RegularFile st content \<Rightarrow>
                (case st of
                   None \<Rightarrow> scan_items match_file sha256_hex ix directory files rest
                 | Some (st_size, st_mtime) \<Rightarrow>
                     (case relative_to item (repo_path ix) of
                        None \<Rightarrow> scan_items match_file sha256_hex ix directory files rest
                      | Some rel_path \<Rightarrow>
                          scan_items match_file sha256_hex ix directory
                            (files @ [\<lparr>path = str_path rel_path, type = get_file_type item,
                                       size_bytes = st_size, modified = st_mtime,
                                       hash = hash_file sha256_hex content\<rparr>]) rest))
            | Directory listing \<Rightarrow>
                (case listing of
                   Inl e \<Rightarrow>
                     if is_permission_error e
                     then scan_items match_file sha256_hex ix directory files rest
                     else Inl e
                 | Inr entries \<Rightarrow>
                     (case scan_items match_file sha256_hex ix item [] entries of
                        Inl e \<Rightarrow> Inl e
                      | Inr sub \<Rightarrow>
                          scan_items match_file sha256_hex ix directory (files @ sub) rest))
            | Special \<Rightarrow> scan_items match_file sha256_hex ix directory files rest
            | Unknowable e \<Rightarrow> if is_permission_error e then Inr files else Inl e))"

declare scan_items.simps [simp del]

text \<open>\<open>_scan_directory\<close> of a directory, from the outcome of listing it.\<close>

definition scan_directory ::
  "(string list \<Rightarrow> string \<Rightarrow> bool) \<Rightarrow> (string \<Rightarrow> string) \<Rightarrow> FileIndexer \<Rightarrow> pypath
   \<Rightarrow> exc + (string \<times> fsnode) list \<Rightarrow> exc + FileEntry list" where
  "scan_directory match_file sha256_hex ix directory listing =
     (case listing of
        Inl e \<Rightarrow> if is_permission_error e then Inr [] else Inl e
      | Inr entries \<Rightarrow> scan_items match_file sha256_hex ix directory [] entries)"

text \<open>
  \<open>create_index\<close>: the scan of the repository root (given by the outcome of listing it),
  the repository record with the number of scanned files, the index with its defaults,
  and one \<open>add_file\<close> per scanned file. An exception that leaves the scan leaves
  \<open>create_index\<close>.
\<close>

definition create_index ::
  "(string list \<Rightarrow> string \<Rightarrow> bool) \<Rightarrow> (string \<Rightarrow> string) \<Rightarrow> FileIndexer \<Rightarrow> pypath \<Rightarrow> datetime
   \<Rightarrow> exc + (string \<times> fsnode) list \<Rightarrow> exc + WorkspaceIndex" where
  "create_index match_file sha256_hex ix cwd now root =
     bind_exc (scan_directory match_file sha256_hex ix (repo_path ix) root) (\<lambda>files.
       let repo_info = \<lparr>repository_path = str_path (absolute cwd (repo_path ix)),
                        total_files = int (length files)\<rparr>;
           index0 = \<lparr>version = ''1.0'', last_updated = now, repository = repo_info,
                     index = [(''files'', [])], file_types = FILE_TYPE_EXTENSIONS\<rparr>
       in Inr (foldl add_file index0 files))"

subsection \<open>Saving and loading\<close>

text \<open>
  The Python values that \<open>model_dump\<close> produces and that the YAML library handles:
  \<open>None\<close>, integers, strings, \<open>datetime\<close> objects, members of \<open>FileType\<close>, lists and
  dictionaries (association lists in insertion order).
\<close>

datatype pyval =
    PNone
  | PInt int
  | PStr string
  | PDatetime datetime
  | PEnum FileType
  | PList "pyval list"
  | PDict "(pyval \<times> pyval) list"

text \<open>
  \<open>model_dump()\<close> in its default mode keeps the Python objects of the fields: a
  \<open>datetime\<close> stays a \<open>datetime\<close> and a member of \<open>FileType\<close> stays that member, also as a
  dictionary key.
\<close>

definition FileEntry_dump :: "FileEntry \<Rightarrow> pyval" where
  "FileEntry_dump f =
     PDict [(PStr ''path'', PStr (path f)),
            (PStr ''type'', PEnum (type f)),
            (PStr ''size'', PInt (size_bytes f)),
            (PStr ''modified'', PDatetime (modified f)),
            (PStr ''hash'', PStr (hash f))]"

definition model_dump :: "WorkspaceIndex \<Rightarrow> pyval" where
  "model_dump w =
     PDict [(PStr ''version'', PStr (version w)),
            (PStr ''last_updated'', PDatetime (last_updated w)),
            (PStr ''repository'',
               PDict [(PStr ''path'', PStr (repository_path (repository w))),
                      (PStr ''total_files'', PInt (total_files (repository w)))]),
            (PStr ''index'',
               PDict (map (\<lambda>kv. (PStr (fst kv), PList (map FileEntry_dump (snd kv)))) (index w))),
            (PStr ''file_types'',
               PDict (map (\<lambda>kv. (PEnum (fst kv), PList (map PStr (snd kv)))) (file_types w)))]"

text \<open>
  The text of a YAML file is kept as what the YAML parser makes of it: a text that the
  parser rejects, with its diagnostic, or a tree of nodes. A node is written as the
  Python value it stands for, and its tag is the one the dumper gives that value:
  \<open>!!null\<close>, \<open>!!int\<close>, \<open>!!str\<close>, \<open>!!timestamp\<close>, \<open>!!seq\<close>, \<open>!!map\<close>, and for a member of an
  enumeration the tag \<open>!!python/object/apply\<close> of its class. \<open>yaml.dump\<close> writes the tree of
  the value. \<open>yaml.safe_load\<close> builds the value of a tree that has only standard tags (a
  timestamp becomes a \<open>datetime\<close>), and raises \<open>ConstructorError\<close> on a Python object tag
  and on a mapping key that is a sequence or a mapping. The only Python object tag of
  these trees is the one of \<open>FileType\<close>.
\<close>

datatype yaml_text = Unparsable string | Document pyval

definition yaml_dump :: "pyval \<Rightarrow> yaml_text" where
  "yaml_dump v = Document v"

fun has_python_tag :: "pyval \<Rightarrow> bool" where
  "has_python_tag (PEnum t) = True"
| "has_python_tag (PList xs) = list_ex has_python_tag xs"
| "has_python_tag (PDict kvs) =
     list_ex (\<lambda>kv. has_python_tag (fst kv) \<or> has_python_tag (snd kv)) kvs"
| "has_python_tag v = False"

fun is_collection :: "pyval \<Rightarrow> bool" where
  "is_collection (PList xs) = True"
| "is_collection (PDict kvs) = True"
| "is_collection v = False"

fun has_unhashable_key :: "pyval \<Rightarrow> bool" where
  "has_unhashable_key (PList xs) = list_ex has_unhashable_key xs"
| "has_unhashable_key (PDict kvs) =
     list_ex (\<lambda>kv. is_collection (fst kv) \<or> has_unhashable_key (fst kv)
                   \<or> has_unhashable_key (snd kv)) kvs"
| "has_unhashable_key v = False"

definition FileType_tag :: string where
  "FileType_tag =
     ''tag:yaml.org,2002:python/object/apply:librarian_mcp_server.models.FileType''"

definition yaml_safe_load :: "yaml_text \<Rightarrow> exc + pyval" where
  "yaml_safe_load doc =
     (case doc of
        Unparsable diagnostic \<Rightarrow> Inl (YAMLError diagnostic)
      | Document v \<Rightarrow>
          if has_python_tag v then
            Inl (ConstructorError
                   (''could not determine a constructor for the tag '' @ squote @ FileType_tag
                      @ squote))
          else if has_unhashable_key v then Inl (ConstructorError ''found unhashable key'')
          else Inr v)"

text \<open>
  \<open>save_index\<close> writes the dumped index to the file at \<open>index_path\<close>. The storage is that
  file and the exception, if any, that creating its directory or opening it for writing
  raises; \<open>save_index\<close> does not catch it.
\<close>

record storage =
  write_error :: "exc option"
  index_file :: "yaml_text file_state"

definition save_index :: "storage \<Rightarrow> WorkspaceIndex \<Rightarrow> exc + storage" where
  "save_index st w =
     (case write_error st of
        None \<Rightarrow> Inr (st\<lparr>index_file := Holds (yaml_dump (model_dump w))\<rparr>)
      | Some e \<Rightarrow> Inl e)"

text \<open>
  The operations of Python that \<open>load_index\<close> applies to the loaded data, whatever its
  type. A member of \<open>FileType\<close> is a string too and compares equal to its value.
\<close>

fun type_name :: "pyval \<Rightarrow> string" where
  "type_name PNone = ''NoneType''"
| "type_name (PInt i) = ''int''"
| "type_name (PStr s) = ''str''"
| "type_name (PDatetime d) = ''datetime.datetime''"
| "type_name (PEnum t) = ''FileType''"
| "type_name (PList xs) = ''list''"
| "type_name (PDict kvs) = ''dict''"

fun as_str :: "pyval \<Rightarrow> string option" where
  "as_str (PStr s) = Some s"
| "as_str (PEnum t) = Some (FileType_value t)"
| "as_str v = None"

text \<open>\<open>k in container\<close> for a string \<open>k\<close>.\<close>

fun py_contains :: "string \<Rightarrow> pyval \<Rightarrow> exc + bool" where
  "py_contains k (PDict kvs) = Inr (list_ex (\<lambda>kv. as_str (fst kv) = Some k) kvs)"
| "py_contains k (PList xs) = Inr (list_ex (\<lambda>x. as_str x = Some k) xs)"
| "py_contains k (PStr s) = Inr (is_substring k s)"
| "py_contains k (PEnum t) = Inr (is_substring k (FileType_value t))"
| "py_contains k v =
     Inl (TypeError (''argument of type '' @ squote @ type_name v @ squote @ '' is not iterable''))"

text \<open>\<open>container[k]\<close> for a string \<open>k\<close>.\<close>

fun py_getitem :: "pyval \<Rightarrow> string \<Rightarrow> exc + pyval" where
  "py_getitem (PDict kvs) k =
     (case find (\<lambda>kv. as_str (fst kv) = Some k) kvs of
        None \<Rightarrow> Inl (KeyError (squote @ k @ squote))
      | Some kv \<Rightarrow> Inr (snd kv))"
| "py_getitem (PList xs) k = Inl (TypeError ''list indices must be integers or slices, not str'')"
| "py_getitem (PStr s) k =
     Inl (TypeError (''string indices must be integers, not '' @ squote @ ''str'' @ squote))"
| "py_getitem (PEnum t) k =
     Inl (TypeError (''string indices must be integers, not '' @ squote @ ''str'' @ squote))"
| "py_getitem v k =
     Inl (TypeError (squote @ type_name v @ squote @ '' object is not subscriptable''))"

text \<open>\<open>container[k] = v\<close> for a string \<open>k\<close>: a present key keeps its place.\<close>

fun dict_set :: "(pyval \<times> pyval) list \<Rightarrow> string \<Rightarrow> pyval \<Rightarrow> (pyval \<times> pyval) list" where
  "dict_set [] k v = [(PStr k, v)]"
| "dict_set (kv # kvs) k v =
     (if as_str (fst kv) = Some k then (fst kv, v) # kvs else kv # dict_set kvs k v)"

fun py_setitem :: "pyval \<Rightarrow> string \<Rightarrow> pyval \<Rightarrow> exc + pyval" where
  "py_setitem (PDict kvs) k v = Inr (PDict (dict_set kvs k v))"
| "py_setitem (PList xs) k v =
     Inl (TypeError ''list indices must be integers or slices, not str'')"
| "py_setitem d k v =
     Inl (TypeError (squote @ type_name d @ squote @ '' object does not support item assignment''))"

text \<open>The items that a \<open>for\<close> loop over the value visits.\<close>

fun py_iter :: "pyval \<Rightarrow> exc + pyval list" where
  "py_iter (PList xs) = Inr xs"
| "py_iter (PDict kvs) = Inr (map fst kvs)"
| "py_iter (PStr s) = Inr (map (\<lambda>c. PStr [c]) s)"
| "py_iter (PEnum t) = Inr (map (\<lambda>c. PStr [c]) (FileType_value t))"
| "py_iter v = Inl (TypeError (squote @ type_name v @ squote @ '' object is not iterable''))"

text \<open>
  \<open>datetime.fromisoformat(v)\<close>: a \<open>TypeError\<close> unless \<open>v\<close> is a string; the parser of the
  ISO format is a parameter.
\<close>

definition py_fromisoformat :: "(string \<Rightarrow> exc + datetime) \<Rightarrow> pyval \<Rightarrow> exc + pyval" where
  "py_fromisoformat fromisoformat v =
     (case as_str v of
        None \<Rightarrow> Inl (TypeError ''fromisoformat: argument must be str'')
      | Some s \<Rightarrow> bind_exc (fromisoformat s) (\<lambda>d. Inr (PDatetime d)))"

text \<open>
  The step \<open>if k in d: d[k] = datetime.fromisoformat(d[k])\<close>, applied by \<open>load_index\<close> to
  the key \<open>last_updated\<close> of the data and to the key \<open>modified\<close> of every file record.
\<close>

definition convert_key ::
  "(string \<Rightarrow> exc + datetime) \<Rightarrow> string \<Rightarrow> pyval \<Rightarrow> exc + pyval" where
  "convert_key fromisoformat k d =
     bind_exc (py_contains k d) (\<lambda>present.
       if present then
         bind_exc (py_getitem d k) (\<lambda>v.
           bind_exc (py_fromisoformat fromisoformat v) (\<lambda>v'. py_setitem d k v'))
       else Inr d)"

fun convert_items :: "(string \<Rightarrow> exc + datetime) \<Rightarrow> pyval list \<Rightarrow> exc + pyval list" where
  "convert_items fromisoformat [] = Inr []"
| "convert_items fromisoformat (file_data # rest) =
     bind_exc (convert_key fromisoformat ''modified'' file_data) (\<lambda>file_data'.
       bind_exc (convert_items fromisoformat rest) (\<lambda>rest'. Inr (file_data' # rest')))"

text \<open>
  The loop over \<open>data["index"]["files"]\<close>. The records of a list are changed in place;
  the items of any other iterable are strings or keys, which the loop cannot change.
\<close>

definition convert_files :: "(string \<Rightarrow> exc + datetime) \<Rightarrow> pyval \<Rightarrow> exc + pyval" where
  "convert_files fromisoformat data =
     bind_exc (py_contains ''index'' data) (\<lambda>has_index.
       if \<not> has_index then Inr data
       else
         bind_exc (py_getitem data ''index'') (\<lambda>idx.
           bind_exc (py_contains ''files'' idx) (\<lambda>has_files.
             if \<not> has_files then Inr data
             else
               bind_exc (py_getitem idx ''files'') (\<lambda>files.
                 bind_exc (py_iter files) (\<lambda>items.
                   bind_exc (convert_items fromisoformat items) (\<lambda>items'.
                     case files of
                       PList xs \<Rightarrow>
                         bind_exc (py_setitem idx ''files'' (PList items')) (\<lambda>idx'.
                           py_setitem data ''index'' idx')
                     | _ \<Rightarrow> Inr data))))))"

text \<open>
  \<open>WorkspaceIndex(**data)\<close>: the data must be a mapping with string keys; the validation
  of the keyword arguments by the model class is a parameter.
\<close>

fun kwargs :: "(pyval \<times> pyval) list \<Rightarrow> (string \<times> pyval) list option" where
  "kwargs [] = Some []"
| "kwargs (kv # kvs) =
     (case as_str (fst kv) of
        None \<Rightarrow> None
      | Some k \<Rightarrow> (case kwargs kvs of None \<Rightarrow> None | Some rest \<Rightarrow> Some ((k, snd kv) # rest)))"

definition construct ::
  "((string \<times> pyval) list \<Rightarrow> exc + WorkspaceIndex) \<Rightarrow> pyval \<Rightarrow> exc + WorkspaceIndex" where
  "construct validate data =
     (case data of
        PDict kvs \<Rightarrow>
          (case kwargs kvs of
             None \<Rightarrow> Inl (TypeError ''keywords must be strings'')
           | Some args \<Rightarrow> validate args)
      | _ \<Rightarrow>
          Inl (TypeError
                 (''librarian_mcp_server.models.WorkspaceIndex() argument after ** must be ''
                    @ ''a mapping, not '' @ type_name data)))"

text \<open>
  The body of the \<open>try\<close> block of \<open>load_index\<close>, from the outcome of opening and reading
  the file.
\<close>

definition load_index_try ::
  "(string \<Rightarrow> exc + datetime) \<Rightarrow> ((string \<times> pyval) list \<Rightarrow> exc + WorkspaceIndex)
   \<Rightarrow> exc + yaml_text \<Rightarrow> exc + WorkspaceIndex" where
  "load_index_try fromisoformat validate opened =
     bind_exc opened (\<lambda>doc.
       bind_exc (yaml_safe_load doc) (\<lambda>data.
         bind_exc (convert_key fromisoformat ''last_updated'' data) (\<lambda>data1.
           bind_exc (convert_files fromisoformat data1) (\<lambda>data2.
             construct validate data2))))"

text \<open>
  \<open>load_index\<close>. The test \<open>self.index_path.exists()\<close> stands before the \<open>try\<close>: when it
  raises, \<open>load_index\<close> raises (\<open>Inl\<close>). Otherwise \<open>load_index\<close> returns the lines it prints
  and its result: \<open>None\<close> without a line when the file does not exist, and for every
  exception of the \<open>try\<close> block one line with the exception's text and \<open>None\<close>.
\<close>

definition report ::
  "exc + WorkspaceIndex \<Rightarrow> string list \<times> WorkspaceIndex option" where
  "report r =
     (case r of
        Inl e \<Rightarrow> ([''Error loading index: '' @ exc_str e], None)
      | Inr w \<Rightarrow> ([], Some w))"

definition load_index ::
  "(string \<Rightarrow> exc + datetime) \<Rightarrow> ((string \<times> pyval) list \<Rightarrow> exc + WorkspaceIndex)
   \<Rightarrow> storage \<Rightarrow> exc + string list \<times> WorkspaceIndex option" where
  "load_index fromisoformat validate st =
     (case index_file st of
        Missing \<Rightarrow> Inr ([], None)
      | Inaccessible e \<Rightarrow> Inl e
      | Unreadable e \<Rightarrow> Inr (report (load_index_try fromisoformat validate (Inl e)))
      | Holds doc \<Rightarrow> Inr (report (load_index_try fromisoformat validate (Inr doc))))"

section \<open>Notions used by the statements\<close>

text \<open>The count recorded in the repository record is the length of the files list.\<close>

definition count_invariant :: "WorkspaceIndex \<Rightarrow> bool" where
  "count_invariant w = (total_files (repository w) = int (length (files_of w)))"

text \<open>An entry, and an index, with every path lower-cased.\<close>

definition lower_entry :: "FileEntry \<Rightarrow> FileEntry" where
  "lower_entry f = f\<lparr>path := lower (path f)\<rparr>"

definition with_lower_paths :: "WorkspaceIndex \<Rightarrow> WorkspaceIndex" where
  "with_lower_paths w = w\<lparr>index := map (\<lambda>kv. (fst kv, map lower_entry (snd kv))) (index w)\<rparr>"

text \<open>
  Where a path leads (symbolic links aside): its parts with every \<open>..\<close> resolved against
  the part before it; \<open>..\<close> at the root stays at the root, and a leading \<open>..\<close> of a
  relative path stays. A path lies outside the repository when the place it leads to is
  not the place of the root or below it.
\<close>

fun resolve_parts :: "pypath \<Rightarrow> pypath \<Rightarrow> pypath" where
  "resolve_parts seen [] = rev seen"
| "resolve_parts seen (x # xs) =
     (if x = ''..'' then
        (case seen of
           [] \<Rightarrow> resolve_parts [x] xs
         | d # ds \<Rightarrow>
             if d = ''/'' then resolve_parts seen xs
             else if d = ''..'' then resolve_parts (x # seen) xs
             else resolve_parts ds xs)
      else resolve_parts (x # seen) xs)"

definition resolved :: "pypath \<Rightarrow> pypath" where
  "resolved p = resolve_parts [] p"

definition outside_repo :: "FileIndexer \<Rightarrow> pypath \<Rightarrow> bool" where
  "outside_repo ix p = (\<not> prefix (resolved (repo_path ix)) (resolved p))"

text \<open>The fallback policy of \<open>_should_ignore\<close> on the parts of a path.\<close>

definition default_policy :: "pypath \<Rightarrow> bool" where
  "default_policy p =
     (list_ex (\<lambda>part. startswith part ''.'') p \<or> list_ex (\<lambda>part. part \<in> set ignore_dirs) p)"

text \<open>
  A small repository at \<open>/repo\<close> (one of its directories cannot be listed), its indexer
  without a \<open>.gitignore\<close> and with one, and an engine for regular expressions that knows
  literal patterns only (it rejects an opening bracket and raises on an opening brace).
\<close>

definition example_tree :: "exc + (string \<times> fsnode) list" where
  "example_tree =
     Inr
       [(''.git'', Directory (Inr [])),
        (''src'', Directory (Inr
           [(''main.py'', RegularFile (Some (14, Datetime 2024 1 1 12 0 0 0)) (Some ''print(1)'')),
            (''utils.py'', RegularFile (Some (18, Datetime 2024 1 1 12 0 0 0)) None)])),
        (''node_modules'', Directory (Inr
           [(''package.js'', RegularFile (Some (6, Datetime 2024 1 1 12 0 0 0)) (Some ''module''))])),
        (''locked'', Directory (Inl (PermissionError ''[Errno 13] Permission denied''))),
        (''README.MD'', RegularFile (Some (5, Datetime 2024 1 1 12 0 0 0)) (Some ''hello''))]"

definition gitignore_indexer :: FileIndexer where
  "gitignore_indexer =
     \<lparr>repo_path = [''/'', ''repo''],
      index_path = [''/'', ''repo'', ''.claude'', ''workspace'', ''workspace.yml''],
      gitignore_spec = Some [''*.log'', ''node_modules/'', ''.git/'', ''.claude/'']\<rparr>"

definition example_indexer :: FileIndexer where
  "example_indexer =
     \<lparr>repo_path = [''/'', ''repo''],
      index_path = [''/'', ''repo'', ''.claude'', ''workspace'', ''workspace.yml''],
      gitignore_spec = None\<rparr>"

definition literal_compile :: "string \<Rightarrow> bool \<Rightarrow> string re_outcome" where
  "literal_compile pattern ignorecase =
     (if CHR ''['' \<in> set pattern then ReError ''unterminated character set at position 0''
      else if CHR ''{'' \<in> set pattern
      then ReRaises (OverflowError ''the repetition number is too large'')
      else RePattern (if ignorecase then lower pattern else pattern))"

definition literal_search :: "string \<Rightarrow> string \<Rightarrow> bool" where
  "literal_search r s = is_substring r s"


section \<open>Strings, the index and its count\<close>

lemma lower_char_idem: "lower_char (lower_char c) = lower_char c"
  unfolding lower_char_def Let_def by auto

lemma lower_idem: "lower (lower s) = lower s"
  by (simp add: lower_def lower_char_idem)

lemma is_substring_sublist: "is_substring p s = sublist p s"
  by (induction s) (simp_all add: sublist_Cons_right)

lemma files_of_add_file: "files_of (add_file w e) = files_of w @ [e]"
  by (cases "map_of (index w) ''files''")
     (simp_all add: add_file_def files_of_def Let_def update_conv')

lemma total_files_add_file:
  "total_files (repository (add_file w e)) = int (length (files_of w)) + 1"
  by (cases "map_of (index w) ''files''")
     (simp_all add: add_file_def files_of_def Let_def update_conv')

lemma count_invariant_add_file: "count_invariant (add_file w e)"
  by (simp add: count_invariant_def files_of_add_file total_files_add_file)

lemma files_of_foldl_add_file: "files_of (foldl add_file w es) = files_of w @ es"
  by (induction es arbitrary: w) (simp_all add: files_of_add_file)

lemma count_invariant_foldl:
  "count_invariant w \<Longrightarrow> count_invariant (foldl add_file w es)"
  by (induction es arbitrary: w) (simp_all add: count_invariant_add_file)

lemma count_invariant_foldl_nonempty:
  "es \<noteq> [] \<Longrightarrow> count_invariant (foldl add_file w es)"
  by (cases es) (simp_all add: count_invariant_add_file count_invariant_foldl)

lemma create_index_Inr:
  assumes "create_index mf sha ix cwd now root = Inr w"
  shows "\<exists>w0 files. scan_directory mf sha ix (repo_path ix) root = Inr files
            \<and> w = foldl add_file w0 files
            \<and> index w0 = [(''files'', [])]
            \<and> total_files (repository w0) = int (length files)"
  using assms
  by (cases "scan_directory mf sha ix (repo_path ix) root")
     (auto simp: create_index_def bind_exc_def Let_def)

lemma create_index_files:
  assumes "create_index mf sha ix cwd now root = Inr w"
  shows "scan_directory mf sha ix (repo_path ix) root = Inr (files_of w)"
proof -
  from create_index_Inr[OF assms] obtain w0 files where
    s: "scan_directory mf sha ix (repo_path ix) root = Inr files"
    and w: "w = foldl add_file w0 files"
    and i: "index w0 = [(''files'', [])]" by blast
  have "files_of w0 = []" by (simp add: files_of_def i)
  then show ?thesis by (simp add: s w files_of_foldl_add_file)
qed

lemma create_index_count:
  assumes "create_index mf sha ix cwd now root = Inr w"
  shows "count_invariant w"
proof -
  from create_index_Inr[OF assms] obtain w0 files where
    w: "w = foldl add_file w0 files"
    and i: "index w0 = [(''files'', [])]"
    and t: "total_files (repository w0) = int (length files)" by blast
  show ?thesis
  proof (cases "files = []")
    case True
    then show ?thesis using i t by (simp add: w count_invariant_def files_of_def)
  next
    case False
    then show ?thesis unfolding w by (rule count_invariant_foldl_nonempty)
  qed
qed

text \<open>
  Claim C3. After every \<open>add_file\<close> the count \<open>repository.total_files\<close> is the number of
  entries of the files list: after one operation on any index, after any further
  operations, and for every index that \<open>create_index\<close> returns.
\<close>

theorem total_files_invariant:
  "count_invariant (add_file w e)
   \<and> files_of (add_file w e) = files_of w @ [e]
   \<and> count_invariant (foldl add_file (add_file w e) es)
   \<and> files_of (foldl add_file (add_file w e) es) = files_of w @ e # es
   \<and> (create_index mf sha ix cwd now root = Inr w' \<longrightarrow> count_invariant w')"
  using count_invariant_add_file count_invariant_foldl create_index_count
  by (simp add: files_of_add_file files_of_foldl_add_file)

text \<open>
  The index of the example repository: three files (the ignored and the locked
  directory give none), and the count is three.
\<close>

theorem total_files_invariant_witness:
  "create_index (\<lambda>ps s. False) (\<lambda>b. ''h'') example_indexer [''/'']
       (Datetime 2024 1 1 0 0 0 0) example_tree
     = Inr \<lparr>version = ''1.0'', last_updated = Datetime 2024 1 1 0 0 0 0,
        repository = \<lparr>repository_path = ''/repo'', total_files = 3\<rparr>,
        index =
          [(''files'',
            [\<lparr>path = ''src/main.py'', type = PYTHON, size_bytes = 14,
                modified = Datetime 2024 1 1 12 0 0 0, hash = ''h''\<rparr>,
             \<lparr>path = ''src/utils.py'', type = PYTHON, size_bytes = 18,
                modified = Datetime 2024 1 1 12 0 0 0, hash = []\<rparr>,
             \<lparr>path = ''README.MD'', type = MARKDOWN, size_bytes = 5,
                modified = Datetime 2024 1 1 12 0 0 0, hash = ''h''\<rparr>])],
        file_types = FILE_TYPE_EXTENSIONS\<rparr>
   \<and> count_invariant
        \<lparr>version = ''1.0'', last_updated = Datetime 2024 1 1 0 0 0 0,
        repository = \<lparr>repository_path = ''/repo'', total_files = 3\<rparr>,
        index =
          [(''files'',
            [\<lparr>path = ''src/main.py'', type = PYTHON, size_bytes = 14,
                modified = Datetime 2024 1 1 12 0 0 0, hash = ''h''\<rparr>,
             \<lparr>path = ''src/utils.py'', type = PYTHON, size_bytes = 18,
                modified = Datetime 2024 1 1 12 0 0 0, hash = []\<rparr>,
             \<lparr>path = ''README.MD'', type = MARKDOWN, size_bytes = 5,
                modified = Datetime 2024 1 1 12 0 0 0, hash = ''h''\<rparr>])],
        file_types = FILE_TYPE_EXTENSIONS\<rparr>"
proof -
  have c: "create_index (\<lambda>ps s. False) (\<lambda>b. ''h'') example_indexer [''/'']
       (Datetime 2024 1 1 0 0 0 0) example_tree
     = Inr \<lparr>version = ''1.0'', last_updated = Datetime 2024 1 1 0 0 0 0,
        repository = \<lparr>repository_path = ''/repo'', total_files = 3\<rparr>,
        index =
          [(''files'',
            [\<lparr>path = ''src/main.py'', type = PYTHON, size_bytes = 14,
                modified = Datetime 2024 1 1 12 0 0 0, hash = ''h''\<rparr>,
             \<lparr>path = ''src/utils.py'', type = PYTHON, size_bytes = 18,
                modified = Datetime 2024 1 1 12 0 0 0, hash = []\<rparr>,
             \<lparr>path = ''README.MD'', type = MARKDOWN, size_bytes = 5,
                modified = Datetime 2024 1 1 12 0 0 0, hash = ''h''\<rparr>])],
        file_types = FILE_TYPE_EXTENSIONS\<rparr>"
    by code_simp
  from c total_files_invariant show ?thesis by blast
qed

text \<open>
  A \<open>PermissionError\<close> of \<open>is_file()\<close> ends the loop of the scan: the files found before
  the item are returned and the items after it are not visited. Any other exception
  leaves the scan.
\<close>

lemma scan_ends_at_permission_error:
  "scan_directory (\<lambda>patterns s. False) (\<lambda>bytes. ''h'') example_indexer [''/'', ''repo'']
     (Inr [(''a.py'', RegularFile (Some (1, Datetime 2024 1 1 12 0 0 0)) (Some ''x'')),
           (''b'', Unknowable (PermissionError ''[Errno 13] Permission denied'')),
           (''c.py'', RegularFile (Some (2, Datetime 2024 1 1 12 0 0 0)) (Some ''y''))])
   = Inr [\<lparr>path = ''a.py'', type = PYTHON, size_bytes = 1,
            modified = Datetime 2024 1 1 12 0 0 0, hash = ''h''\<rparr>]"
  by code_simp

lemma scan_raises_other_errors:
  "scan_directory (\<lambda>patterns s. False) (\<lambda>bytes. ''h'') example_indexer [''/'', ''repo'']
     (Inr [(''a.py'', RegularFile (Some (1, Datetime 2024 1 1 12 0 0 0)) (Some ''x'')),
           (''d'', Directory (Inl (OSError ''[Errno 5] Input/output error'')))])
   = Inl (OSError ''[Errno 5] Input/output error'')"
  by code_simp

section \<open>Substring search\<close>

lemma slice_to_nonneg: "0 \<le> n \<Longrightarrow> slice_to xs n = take (nat n) xs"
  by (simp add: slice_to_def)

lemma slice_to_neg: "n < 0 \<Longrightarrow> slice_to xs n = take (length xs - nat (- n)) xs"
  by (simp add: slice_to_def)

lemma search_files_filter:
  "search_files w pattern cs =
     filter (\<lambda>f. if cs then sublist pattern (path f)
                 else sublist (lower pattern) (lower (path f))) (files_of w)"
  by (simp add: search_files_def is_substring_sublist)

text \<open>
  Claim C6, amended. For a limit that is not negative, the substring search returns
  exactly the entries whose path contains the pattern (both sides lower-cased unless the
  search is case-sensitive), cut to the first \<open>limit\<close> matches in index order.
\<close>

theorem search_by_substring_limit:
  "0 \<le> limit \<Longrightarrow>
   search_files_tool_results w pattern cs limit =
     take (nat limit)
       (filter (\<lambda>f. if cs then sublist pattern (path f)
                    else sublist (lower pattern) (lower (path f))) (files_of w))"
  by (simp add: search_files_tool_results_def slice_to_def search_files_filter)

text \<open>For a negative limit the slice \<open>[:limit]\<close> keeps all matches but the last \<open>-limit\<close>.\<close>

lemma search_by_substring_negative_limit:
  "limit < 0 \<Longrightarrow>
   search_files_tool_results w pattern cs limit =
     take (length (search_files w pattern cs) - nat (- limit)) (search_files w pattern cs)"
  by (simp add: search_files_tool_results_def slice_to_def)

lemma test_index_files: "files_of test_index = test_files"
  by code_simp

lemma py_matches:
  "search_files test_index ''py'' False = take 2 test_files"
  by code_simp

lemma py_matches_filter:
  "filter (\<lambda>f. sublist (lower ''py'') (lower (path f))) (files_of test_index) = take 2 test_files"
  using search_files_filter[of test_index "''py''" False] py_matches by simp

text \<open>Two of the four test files match \<open>py\<close>; limit 1 leaves the first.\<close>

theorem search_by_substring_limit_witness:
  "(0::int) \<le> 1 \<and> search_files_tool_results test_index ''py'' False 1 = take 1 test_files"
proof -
  have z: "(0::int) \<le> 1" by simp
  have "search_files_tool_results test_index ''py'' False 1 = take 1 test_files"
    using search_by_substring_limit[OF z, of test_index "''py''" False]
    by (simp add: py_matches_filter)
  with z show ?thesis by simp
qed

text \<open>
  Claim C6 as stated, for every limit, fails: two test files match \<open>py\<close>, and with
  limit -1 the search returns the first of them, which is more than -1 entries and not
  the first -1 (that is, no) matches.
\<close>

theorem search_by_substring_negative_limit_counterexample:
  "search_files_tool_results test_index ''py'' False (- 1) = take 1 test_files
   \<and> search_files_tool_results test_index ''py'' False (- 1)
       \<noteq> take (nat (- 1))
           (filter (\<lambda>f. if False then sublist ''py'' (path f)
                        else sublist (lower ''py'') (lower (path f))) (files_of test_index))
   \<and> \<not> int (length (search_files_tool_results test_index ''py'' False (- 1))) \<le> - 1"
proof -
  have "search_files_tool_results test_index ''py'' False (- 1) = take 1 test_files"
    by code_simp
  then show ?thesis by (simp add: test_files_def)
qed

lemma files_of_with_lower_paths:
  "files_of (with_lower_paths w) = map lower_entry (files_of w)"
proof -
  have "map_of (map (\<lambda>kv. (fst kv, map lower_entry (snd kv))) al) k
          = map_option (map lower_entry) (map_of al k)" for al :: "(string \<times> FileEntry list) list" and k
    by (induction al) auto
  then show ?thesis
    by (simp add: files_of_def with_lower_paths_def split: option.splits)
qed

lemma search_files_lower_pattern:
  "search_files w p False = search_files w (lower p) False"
  by (simp add: search_files_def lower_idem)

lemma search_files_lower_paths:
  "map lower_entry (search_files w p False) = search_files (with_lower_paths w) (lower p) False"
  by (simp add: search_files_def files_of_with_lower_paths filter_map o_def lower_entry_def
        lower_idem)

text \<open>
  Claim C7. The case-insensitive search for \<open>p\<close> finds what the search for \<open>p.lower()\<close>
  finds, and on the index with all paths lower-cased the search for \<open>p.lower()\<close> finds
  the same entries, with their paths lower-cased, in the same order.
\<close>

theorem case_folding:
  "search_files w p False = search_files w (lower p) False
   \<and> map lower_entry (search_files w p False)
       = search_files (with_lower_paths w) (lower p) False
   \<and> lower_entry ` set (search_files w p False)
       = set (search_files (with_lower_paths w) (lower p) False)"
proof -
  have "lower_entry ` set (search_files w p False)
          = set (map lower_entry (search_files w p False))" by simp
  then show ?thesis
    using search_files_lower_pattern search_files_lower_paths by metis
qed


section \<open>The file classifier\<close>

lemma get_file_type_loop_first:
  "get_file_type_loop ext tbl =
     (case filter (\<lambda>entry. ext \<in> set (snd entry)) tbl of [] \<Rightarrow> OTHER | entry # _ \<Rightarrow> fst entry)"
  by (induction ext tbl rule: get_file_type_loop.induct) simp_all

lemma extensions_disjoint:
  "\<forall>entry \<in> set FILE_TYPE_EXTENSIONS. \<forall>ext \<in> set (snd entry).
     get_file_type_loop ext FILE_TYPE_EXTENSIONS = fst entry"
  by (simp add: FILE_TYPE_EXTENSIONS_def)

lemma get_file_type_loop_none:
  "\<forall>entry \<in> set tbl. ext \<notin> set (snd entry) \<Longrightarrow> get_file_type_loop ext tbl = OTHER"
  by (induction ext tbl rule: get_file_type_loop.induct) simp_all

text \<open>
  Claim C8. \<open>get_file_type\<close> is a total function of the lower-cased suffix of the file
  name: its result is the type of the first entry of \<open>FILE_TYPE_EXTENSIONS\<close> whose
  extension list contains that suffix; every entry whose list contains the suffix has
  that type; a suffix that no list contains gives \<open>OTHER\<close>; and two paths with the same
  lower-cased suffix get the same type.
\<close>

theorem get_file_type_classifier:
  "get_file_type p =
     (case filter (\<lambda>entry. lower (suffix_of p) \<in> set (snd entry)) FILE_TYPE_EXTENSIONS of
        [] \<Rightarrow> OTHER
      | entry # _ \<Rightarrow> fst entry)
   \<and> ((t, exts) \<in> set FILE_TYPE_EXTENSIONS \<and> lower (suffix_of p) \<in> set exts
        \<longrightarrow> get_file_type p = t)
   \<and> ((\<forall>entry \<in> set FILE_TYPE_EXTENSIONS. lower (suffix_of p) \<notin> set (snd entry))
        \<longrightarrow> get_file_type p = OTHER)
   \<and> (lower (suffix_of p) = lower (suffix_of q) \<longrightarrow> get_file_type p = get_file_type q)"
proof -
  have a: "get_file_type p =
     (case filter (\<lambda>entry. lower (suffix_of p) \<in> set (snd entry)) FILE_TYPE_EXTENSIONS of
        [] \<Rightarrow> OTHER
      | entry # _ \<Rightarrow> fst entry)"
    unfolding get_file_type_def by (rule get_file_type_loop_first)
  have b: "get_file_type p = t"
    if "(t, exts) \<in> set FILE_TYPE_EXTENSIONS" "lower (suffix_of p) \<in> set exts"
    using extensions_disjoint that unfolding get_file_type_def by fastforce
  have c: "get_file_type p = OTHER"
    if "\<forall>entry \<in> set FILE_TYPE_EXTENSIONS. lower (suffix_of p) \<notin> set (snd entry)"
    unfolding get_file_type_def using that by (rule get_file_type_loop_none)
  have d: "get_file_type p = get_file_type q" if "lower (suffix_of p) = lower (suffix_of q)"
    using that by (simp add: get_file_type_def)
  from a b c d show ?thesis by blast
qed

text \<open>\<open>Main.PY\<close> is a Python file like \<open>main.py\<close>, and \<open>notes.txt\<close> is of type \<open>OTHER\<close>.\<close>

lemma suffix_Main_PY: "lower (suffix_of [''/'', ''repo'', ''Main.PY'']) = ''.py''"
  by code_simp

lemma suffix_main_py: "lower (suffix_of [''src'', ''main.py'']) = ''.py''"
  by code_simp

lemma suffix_notes_txt: "lower (suffix_of [''/'', ''repo'', ''notes.txt'']) = ''.txt''"
  by code_simp

lemma python_entry: "(PYTHON, [''.py'', ''.pyi'', ''.pyx'', ''.pxd'']) \<in> set FILE_TYPE_EXTENSIONS"
  by (simp add: FILE_TYPE_EXTENSIONS_def)

lemma txt_unknown: "\<forall>entry \<in> set FILE_TYPE_EXTENSIONS. ''.txt'' \<notin> set (snd entry)"
  by (simp add: FILE_TYPE_EXTENSIONS_def)

theorem get_file_type_classifier_witness:
  "(PYTHON, [''.py'', ''.pyi'', ''.pyx'', ''.pxd'']) \<in> set FILE_TYPE_EXTENSIONS
   \<and> lower (suffix_of [''/'', ''repo'', ''Main.PY'']) \<in> set [''.py'', ''.pyi'', ''.pyx'', ''.pxd'']
   \<and> get_file_type [''/'', ''repo'', ''Main.PY''] = PYTHON
   \<and> lower (suffix_of [''/'', ''repo'', ''Main.PY'']) = lower (suffix_of [''src'', ''main.py''])
   \<and> get_file_type [''/'', ''repo'', ''Main.PY''] = get_file_type [''src'', ''main.py'']
   \<and> list_all (\<lambda>entry. lower (suffix_of [''/'', ''repo'', ''notes.txt'']) \<notin> set (snd entry))
         FILE_TYPE_EXTENSIONS
   \<and> get_file_type [''/'', ''repo'', ''notes.txt''] = OTHER"
proof -
  have s: "lower (suffix_of [''/'', ''repo'', ''Main.PY'']) \<in> set [''.py'', ''.pyi'', ''.pyx'', ''.pxd'']"
    by (simp add: suffix_Main_PY)
  have e: "lower (suffix_of [''/'', ''repo'', ''Main.PY'']) = lower (suffix_of [''src'', ''main.py''])"
    by (simp add: suffix_Main_PY suffix_main_py)
  have u: "\<forall>entry \<in> set FILE_TYPE_EXTENSIONS.
             lower (suffix_of [''/'', ''repo'', ''notes.txt'']) \<notin> set (snd entry)"
    using txt_unknown by (simp add: suffix_notes_txt)
  note t1 = get_file_type_classifier[of "[''/'', ''repo'', ''Main.PY'']" PYTHON
              "[''.py'', ''.pyi'', ''.pyx'', ''.pxd'']" "[''src'', ''main.py'']"]
  note t2 = get_file_type_classifier[of "[''/'', ''repo'', ''notes.txt'']" PYTHON
              "[]" "[''/'', ''repo'', ''notes.txt'']"]
  from t1 python_entry s e have
    "get_file_type [''/'', ''repo'', ''Main.PY''] = PYTHON"
    "get_file_type [''/'', ''repo'', ''Main.PY''] = get_file_type [''src'', ''main.py'']"
    by blast+
  moreover from t2 u have "get_file_type [''/'', ''repo'', ''notes.txt''] = OTHER" by blast
  ultimately show ?thesis using python_entry s e u by (simp add: list_all_iff)
qed

section \<open>Search by type\<close>

lemma FileType_of_value_value: "FileType_of_value (FileType_value t) = Some t"
  by (cases t) (simp_all add: FileType_of_value_def FileType_members_def)

lemma FileType_of_value_Some: "FileType_of_value s = Some t \<Longrightarrow> FileType_value t = s"
  unfolding FileType_of_value_def by (auto simp: find_Some_iff)

lemma FileType_of_value_None: "FileType_of_value s = None \<longleftrightarrow> (\<forall>t. FileType_value t \<noteq> s)"
  using FileType_of_value_value FileType_of_value_Some
  by (metis not_None_eq option.distinct(1))

lemma lower_FileType_value: "lower (FileType_value t) = FileType_value t"
  by (cases t) (simp_all add: lower_def lower_char_def)

lemma members_all: "set FileType_members = UNIV"
proof -
  have "t \<in> set FileType_members" for t
    by (cases t) (simp_all add: FileType_members_def)
  then show ?thesis by blast
qed

lemma invalid_type_message:
  "''Invalid file type. Valid types are: '' @ join '', '' (map FileType_value FileType_members)
   = ''Invalid file type. Valid types are: python, javascript, typescript, kotlin, java, go, rust, cpp, c, csharp, ruby, php, swift, markdown, json, yaml, xml, html, css, other''"
  by (simp add: FileType_members_def)

lemma search_by_type_results_lower:
  "search_by_type_results w s pat limit = search_by_type_results w (lower s) pat limit"
  by (simp add: search_by_type_results_def lower_idem)

lemma search_by_type_results_isl:
  "isl (search_by_type_results w s pat limit) \<longleftrightarrow> (\<forall>t. FileType_value t \<noteq> lower s)"
  by (auto simp: search_by_type_results_def Let_def FileType_of_value_None[symmetric]
           split: option.splits)

text \<open>
  Claim C10. \<open>search_by_type\<close> selects by the lower-cased type name: a name gives the
  same entries as its lower-casing, any capitalisation of the value of a type selects
  that type and is no error, and the error is returned exactly for the names whose
  lower-casing is the value of no type.
\<close>

theorem search_by_type_case_insensitive:
  "search_by_type_results w s pat limit = search_by_type_results w (lower s) pat limit
   \<and> (lower s = FileType_value t \<longrightarrow>
        search_by_type_results w s pat limit
          = search_by_type_results w (FileType_value t) pat limit
        \<and> \<not> isl (search_by_type_results w s pat limit))
   \<and> (isl (search_by_type_results w s pat limit) \<longleftrightarrow> (\<forall>t. FileType_value t \<noteq> lower s))"
proof -
  have "search_by_type_results w s pat limit
          = search_by_type_results w (FileType_value t) pat limit
        \<and> \<not> isl (search_by_type_results w s pat limit)"
    if "lower s = FileType_value t"
    using that search_by_type_results_lower[of w s pat limit] search_by_type_results_isl[of w s pat limit]
    by auto
  then show ?thesis
    using search_by_type_results_lower search_by_type_results_isl by blast
qed

lemma lower_PYTHON: "lower ''PYTHON'' = FileType_value PYTHON"
  by code_simp

lemma lower_Python: "lower ''Python'' = FileType_value PYTHON"
  by code_simp

theorem search_by_type_case_insensitive_witness:
  "lower ''PYTHON'' = FileType_value PYTHON
   \<and> search_by_type_results test_index ''PYTHON'' None 100
       = search_by_type_results test_index ''python'' None 100
   \<and> search_by_type_results test_index ''PYTHON'' None 100 = Inr (take 2 test_files)"
proof -
  have "search_by_type_results test_index ''python'' None 100 = Inr (take 2 test_files)"
    by code_simp
  then show ?thesis
    using search_by_type_case_insensitive[of test_index "''PYTHON''" None 100 PYTHON] lower_PYTHON
    by simp
qed

text \<open>
  The optional pattern: an absent or empty pattern keeps every entry, and so does the
  substring test for the empty pattern.
\<close>

lemma pattern_filter:
  "(case pat of
      None \<Rightarrow> results
    | Some p \<Rightarrow> if p = [] then results
               else filter (\<lambda>f. is_substring (lower p) (lower (path f))) results)
   = filter (\<lambda>f. case pat of None \<Rightarrow> True | Some p \<Rightarrow> sublist (lower p) (lower (path f))) results"
  by (cases pat) (simp_all add: is_substring_sublist lower_def)

lemma search_by_type_results_valid:
  assumes "lower s = FileType_value t"
  shows "search_by_type_results w s pat limit =
           Inr (slice_to
                  (filter (\<lambda>f. case pat of None \<Rightarrow> True
                                | Some p \<Rightarrow> sublist (lower p) (lower (path f)))
                     (filter (\<lambda>f. type f = t) (files_of w))) limit)"
proof -
  have "search_by_type_results w s pat limit =
          Inr (slice_to
                 (case pat of
                    None \<Rightarrow> get_files_by_type w t
                  | Some p \<Rightarrow> if p = [] then get_files_by_type w t
                             else filter (\<lambda>f. is_substring (lower p) (lower (path f)))
                                    (get_files_by_type w t)) limit)"
    by (simp add: search_by_type_results_def assms FileType_of_value_value Let_def)
  also have "\<dots> =
          Inr (slice_to
                 (filter (\<lambda>f. case pat of None \<Rightarrow> True
                               | Some p \<Rightarrow> sublist (lower p) (lower (path f)))
                    (get_files_by_type w t)) limit)"
    by (simp only: pattern_filter)
  finally show ?thesis by (simp only: get_files_by_type_def)
qed

lemma search_by_type_results_invalid:
  assumes "\<forall>t. FileType_value t \<noteq> lower s"
  shows "search_by_type_results w s pat limit =
           Inl ''Invalid file type. Valid types are: python, javascript, typescript, kotlin, java, go, rust, cpp, c, csharp, ruby, php, swift, markdown, json, yaml, xml, html, css, other''"
proof -
  have "FileType_of_value (lower s) = None"
    using assms by (simp add: FileType_of_value_None)
  then show ?thesis
    by (simp add: search_by_type_results_def FileType_members_def)
qed

text \<open>
  Claim C5, amended. A type name whose lower-casing is the value of no type gives the
  error text that lists the values of all twenty types. Otherwise, for a limit that is
  not negative, the entries of that type are kept, then those whose lower-cased path
  contains the lower-cased pattern (when a pattern is given), then the first \<open>limit\<close> of
  them.
\<close>

theorem search_by_type_spec:
  "((\<forall>t. FileType_value t \<noteq> lower s) \<longrightarrow>
      search_by_type w s pat limit =
        ''Invalid file type. Valid types are: python, javascript, typescript, kotlin, java, go, rust, cpp, c, csharp, ruby, php, swift, markdown, json, yaml, xml, html, css, other'')
   \<and> (lower s = FileType_value t \<and> 0 \<le> limit \<longrightarrow>
      search_by_type_results w s pat limit =
        Inr (take (nat limit)
               (filter (\<lambda>f. case pat of None \<Rightarrow> True
                             | Some p \<Rightarrow> sublist (lower p) (lower (path f)))
                  (filter (\<lambda>f. type f = t) (files_of w)))))"
proof -
  have a: "search_by_type w s pat limit =
        ''Invalid file type. Valid types are: python, javascript, typescript, kotlin, java, go, rust, cpp, c, csharp, ruby, php, swift, markdown, json, yaml, xml, html, css, other''"
    if "\<forall>t. FileType_value t \<noteq> lower s"
    using search_by_type_results_invalid[OF that, of w pat limit]
    by (simp add: search_by_type_def)
  show ?thesis
    using a search_by_type_results_valid[of s t w pat limit]
    by (simp add: slice_to_nonneg)
qed

lemma cobol_unknown: "\<forall>t. FileType_value t \<noteq> lower ''cobol''"
proof -
  have "FileType_of_value (lower ''cobol'') = None" by code_simp
  then show ?thesis by (simp add: FileType_of_value_None)
qed

theorem search_by_type_spec_witness:
  "(\<forall>t. FileType_value t \<noteq> lower ''cobol'')
   \<and> search_by_type test_index ''cobol'' None 10 =
        ''Invalid file type. Valid types are: python, javascript, typescript, kotlin, java, go, rust, cpp, c, csharp, ruby, php, swift, markdown, json, yaml, xml, html, css, other''
   \<and> lower ''PYTHON'' = FileType_value PYTHON \<and> (0::int) \<le> 1
   \<and> search_by_type_results test_index ''PYTHON'' (Some ''MAIN'') 1 =
        Inr (take (nat 1)
               (filter (\<lambda>f. case Some ''MAIN'' of None \<Rightarrow> True
                             | Some p \<Rightarrow> sublist (lower p) (lower (path f)))
                  (filter (\<lambda>f. type f = PYTHON) (files_of test_index))))
   \<and> search_by_type_results test_index ''PYTHON'' (Some ''MAIN'') 1 = Inr (take 1 test_files)"
proof -
  have e: "search_by_type_results test_index ''PYTHON'' (Some ''MAIN'') 1 = Inr (take 1 test_files)"
    by code_simp
  have z: "(0::int) \<le> 1" by simp
  from search_by_type_spec[of "''cobol''" test_index None 10 PYTHON] cobol_unknown
  have a: "search_by_type test_index ''cobol'' None 10 =
        ''Invalid file type. Valid types are: python, javascript, typescript, kotlin, java, go, rust, cpp, c, csharp, ruby, php, swift, markdown, json, yaml, xml, html, css, other''"
    by blast
  from search_by_type_spec[of "''PYTHON''" test_index "Some ''MAIN''" 1 PYTHON] lower_PYTHON z
  have b: "search_by_type_results test_index ''PYTHON'' (Some ''MAIN'') 1 =
        Inr (take (nat 1)
               (filter (\<lambda>f. case Some ''MAIN'' of None \<Rightarrow> True
                             | Some p \<Rightarrow> sublist (lower p) (lower (path f)))
                  (filter (\<lambda>f. type f = PYTHON) (files_of test_index))))"
    by blast
  from a b e z cobol_unknown lower_PYTHON show ?thesis by blast
qed

text \<open>
  Claim C5 as stated, truncation to \<open>limit\<close> for every limit, fails: with limit -1 the
  search for \<open>python\<close> returns the first of the two Python entries, which is more than
  -1 entries.
\<close>

theorem search_by_type_negative_limit_counterexample:
  "lower ''python'' = FileType_value PYTHON
   \<and> search_by_type_results test_index ''python'' None (- 1) = Inr (take 1 test_files)
   \<and> search_by_type_results test_index ''python'' None (- 1)
       \<noteq> Inr (take (nat (- 1))
                (filter (\<lambda>f. case None of None \<Rightarrow> True
                              | Some p \<Rightarrow> sublist (lower p) (lower (path f)))
                   (filter (\<lambda>f. type f = PYTHON) (files_of test_index))))
   \<and> \<not> int (length (take 1 test_files)) \<le> - 1"
proof -
  have "lower ''python'' = FileType_value PYTHON"
    by code_simp
  moreover have
    "search_by_type_results test_index ''python'' None (- 1) = Inr (take 1 test_files)"
    by code_simp
  ultimately show ?thesis by (simp add: test_files_def)
qed

section \<open>Search by regular expression\<close>

text \<open>
  Claim C4, amended. When the compiler rejects the pattern with \<open>re.error\<close>,
  \<open>search_files_regex\<close> raises nothing and returns the text \<open>Invalid regex pattern:\<close>
  followed by the diagnostic of the compiler. When the pattern compiles, the tool raises
  nothing and prints its results, which for a limit that is not negative are the entries
  whose path the expression matches somewhere, cut to the first \<open>limit\<close> matches.
\<close>

theorem search_by_regex_spec:
  "(re_compile pattern (\<not> cs) = ReError d \<longrightarrow>
      search_files_regex re_compile re_search w pattern cs limit
        = Inr (''Invalid regex pattern: '' @ d))
   \<and> (re_compile pattern (\<not> cs) = RePattern r \<longrightarrow>
      search_files_regex re_compile re_search w pattern cs limit
        = Inr (regex_output pattern (search_files_regex_results re_search w r limit)))
   \<and> (0 \<le> limit \<longrightarrow>
      search_files_regex_results re_search w r limit
        = take (nat limit) (filter (\<lambda>f. re_search r (path f)) (files_of w)))"
  by (simp add: search_files_regex_def search_files_regex_results_def slice_to_nonneg)

theorem search_by_regex_spec_witness:
  "literal_compile ''[invalid'' (\<not> False) = ReError ''unterminated character set at position 0''
   \<and> search_files_regex literal_compile literal_search test_index ''[invalid'' False 100
        = Inr ''Invalid regex pattern: unterminated character set at position 0''
   \<and> literal_compile ''.PY'' (\<not> False) = RePattern ''.py'' \<and> (0::int) \<le> 1
   \<and> search_files_regex literal_compile literal_search test_index ''.PY'' False 1
        = Inr (regex_output ''.PY'' (search_files_regex_results literal_search test_index ''.py'' 1))
   \<and> search_files_regex_results literal_search test_index ''.py'' 1
        = take (nat 1) (filter (\<lambda>f. literal_search ''.py'' (path f)) (files_of test_index))
   \<and> search_files_regex_results literal_search test_index ''.py'' 1 = take 1 test_files"
proof -
  have c1: "literal_compile ''[invalid'' (\<not> False)
              = ReError ''unterminated character set at position 0''"
    by code_simp
  have c2: "literal_compile ''.PY'' (\<not> False) = RePattern ''.py''"
    by code_simp
  have z: "(0::int) \<le> 1" by simp
  have e: "search_files_regex_results literal_search test_index ''.py'' 1 = take 1 test_files"
    by code_simp
  from search_by_regex_spec[where re_compile=literal_compile and pattern="''[invalid''"
         and cs=False and d="''unterminated character set at position 0''"
         and re_search=literal_search and w=test_index and limit=100] c1
  have a: "search_files_regex literal_compile literal_search test_index ''[invalid'' False 100
        = Inr ''Invalid regex pattern: unterminated character set at position 0''"
    by simp
  from search_by_regex_spec[where re_compile=literal_compile and pattern="''.PY''"
         and cs=False and r="''.py''" and re_search=literal_search and w=test_index
         and limit=1] c2 z
  have b: "search_files_regex literal_compile literal_search test_index ''.PY'' False 1
        = Inr (regex_output ''.PY'' (search_files_regex_results literal_search test_index ''.py'' 1))"
    and b': "search_files_regex_results literal_search test_index ''.py'' 1
        = take (nat 1) (filter (\<lambda>f. literal_search ''.py'' (path f)) (files_of test_index))"
    by blast+
  from a b b' c1 c2 z e show ?thesis by blast
qed

text \<open>
  Claim C4 as stated, truncation to \<open>limit\<close> for every limit, fails: with limit -1 the
  pattern \<open>py\<close> returns the first of its two matches, which is more than -1 entries.
\<close>

theorem search_by_regex_negative_limit_counterexample:
  "literal_compile ''py'' (\<not> True) = RePattern ''py''
   \<and> search_files_regex_results literal_search test_index ''py'' (- 1) = take 1 test_files
   \<and> search_files_regex_results literal_search test_index ''py'' (- 1)
       \<noteq> take (nat (- 1)) (filter (\<lambda>f. literal_search ''py'' (path f)) (files_of test_index))
   \<and> \<not> int (length (search_files_regex_results literal_search test_index ''py'' (- 1))) \<le> - 1"
proof -
  have "literal_compile ''py'' (\<not> True) = RePattern ''py''"
    by code_simp
  moreover have
    "search_files_regex_results literal_search test_index ''py'' (- 1) = take 1 test_files"
    by code_simp
  ultimately show ?thesis by (simp add: test_files_def)
qed

text \<open>An exception of the compiler other than \<open>re.error\<close> is not caught by the tool.\<close>

lemma search_files_regex_raises:
  "re_compile pattern (\<not> cs) = ReRaises x \<Longrightarrow>
   search_files_regex re_compile re_search w pattern cs limit = Inl x"
  by (simp add: search_files_regex_def)


section \<open>Ignoring paths\<close>

lemma should_ignore_no_spec:
  "gitignore_spec ix = None \<Longrightarrow> should_ignore match_file ix p = default_policy p"
  by (auto simp: should_ignore_def default_policy_def)

lemma FileIndexer_init_Holds:
  "FileIndexer_init root (Holds lines) = Inr ix \<Longrightarrow>
   \<exists>patterns. gitignore_spec ix = Some patterns \<and> patterns \<noteq> [] \<and> repo_path ix = root"
  by (auto simp: FileIndexer_init_def load_gitignore_def bind_exc_def)

lemma FileIndexer_init_Missing:
  "FileIndexer_init root Missing = Inr ix \<Longrightarrow> gitignore_spec ix = None \<and> repo_path ix = root"
  by (auto simp: FileIndexer_init_def load_gitignore_def bind_exc_def)

text \<open>
  The branch for a repository with a \<open>.gitignore\<close>: a path for which \<open>relative_to\<close> raises
  is ignored, and any other path is left to the matcher, with the text of its relative
  path.
\<close>

lemma should_ignore_spec_not_relative:
  "gitignore_spec ix = Some patterns \<Longrightarrow> patterns \<noteq> [] \<Longrightarrow>
   relative_to p (repo_path ix) = None \<Longrightarrow> should_ignore match_file ix p"
  by (simp add: should_ignore_def)

lemma should_ignore_spec_relative:
  "gitignore_spec ix = Some patterns \<Longrightarrow> patterns \<noteq> [] \<Longrightarrow>
   relative_to p (repo_path ix) = Some rel \<Longrightarrow>
   should_ignore match_file ix p = match_file patterns (str_path rel)"
  by (simp add: should_ignore_def)

lemma init_with_gitignore:
  "FileIndexer_init [''/'', ''repo''] (Holds [''*.log'' @ newline, ''node_modules/'' @ newline])
     = Inr gitignore_indexer"
  by code_simp

lemma init_without_gitignore:
  "FileIndexer_init [''/'', ''repo''] Missing = Inr example_indexer"
  by code_simp

text \<open>
  Claim C2 does not hold of the code. The repository \<open>/repo\<close> has no \<open>.gitignore\<close>; the
  path \<open>/tmp/x.py\<close> lies outside it and is not ignored, whatever the matcher would say:
  the fallback branch looks at the parts of the path only and never relates the path to
  the root, which the branch for a \<open>.gitignore\<close> does.
\<close>

theorem should_ignore_outside_repo_not_ignored:
  "FileIndexer_init [''/'', ''repo''] Missing = Inr example_indexer
   \<and> outside_repo example_indexer [''/'', ''tmp'', ''x.py'']
   \<and> relative_to [''/'', ''tmp'', ''x.py''] (repo_path example_indexer) = None
   \<and> \<not> should_ignore (\<lambda>patterns s. True) example_indexer [''/'', ''tmp'', ''x.py'']
   \<and> \<not> should_ignore (\<lambda>patterns s. False) example_indexer [''/'', ''tmp'', ''x.py'']"
proof -
  have "outside_repo example_indexer [''/'', ''tmp'', ''x.py'']"
    by code_simp
  moreover have "relative_to [''/'', ''tmp'', ''x.py''] (repo_path example_indexer) = None"
    by code_simp
  moreover have
    "\<not> should_ignore (\<lambda>patterns s. True) example_indexer [''/'', ''tmp'', ''x.py'']"
    by code_simp
  moreover have
    "\<not> should_ignore (\<lambda>patterns s. False) example_indexer [''/'', ''tmp'', ''x.py'']"
    by code_simp
  ultimately show ?thesis using init_without_gitignore by simp
qed

text \<open>
  With a \<open>.gitignore\<close> the same path is ignored. But the test of that branch goes by the
  parts as written: \<open>/repo/../tmp/x.py\<close> leads outside the repository, \<open>relative_to\<close> does
  not raise for it, and the matcher decides on the text \<open>../tmp/x.py\<close>.
\<close>

lemma gitignore_outside_ignored:
  "outside_repo gitignore_indexer [''/'', ''tmp'', ''x.py'']
   \<and> should_ignore match_file gitignore_indexer [''/'', ''tmp'', ''x.py'']"
proof -
  have "outside_repo gitignore_indexer [''/'', ''tmp'', ''x.py'']"
    by code_simp
  moreover have "relative_to [''/'', ''tmp'', ''x.py''] (repo_path gitignore_indexer) = None"
    by code_simp
  ultimately show ?thesis
    using should_ignore_spec_not_relative[of gitignore_indexer _ "[''/'', ''tmp'', ''x.py'']"]
    by (simp add: gitignore_indexer_def)
qed

lemma gitignore_dotdot_left_to_matcher:
  "outside_repo gitignore_indexer [''/'', ''repo'', ''..'', ''tmp'', ''x.py'']
   \<and> should_ignore match_file gitignore_indexer [''/'', ''repo'', ''..'', ''tmp'', ''x.py'']
       = match_file [''*.log'', ''node_modules/'', ''.git/'', ''.claude/''] ''../tmp/x.py''"
proof -
  have "outside_repo gitignore_indexer [''/'', ''repo'', ''..'', ''tmp'', ''x.py'']"
    by code_simp
  moreover have
    "relative_to [''/'', ''repo'', ''..'', ''tmp'', ''x.py''] (repo_path gitignore_indexer)
       = Some [''..'', ''tmp'', ''x.py'']"
    by code_simp
  moreover have "str_path [''..'', ''tmp'', ''x.py''] = ''../tmp/x.py''"
    by code_simp
  ultimately show ?thesis
    using should_ignore_spec_relative[of gitignore_indexer _
            "[''/'', ''repo'', ''..'', ''tmp'', ''x.py'']" "[''..'', ''tmp'', ''x.py'']" match_file]
    by (simp add: gitignore_indexer_def)
qed


section \<open>Loading and saving the index\<close>


lemma load_index_failure:
  "index_file st = Holds doc \<Longrightarrow> load_index_try fromiso validate (Inr doc) = Inl e \<Longrightarrow>
   load_index fromiso validate st = Inr ([''Error loading index: '' @ exc_str e], None)"
  by (simp add: load_index_def report_def)






text \<open>
  What \<open>save_index\<close> writes cannot be loaded. The dump holds the \<open>datetime\<close> of
  \<open>last_updated\<close> as an object, which \<open>datetime.fromisoformat\<close> rejects, and members of
  \<open>FileType\<close>, which the safe loader rejects.
\<close>

lemma convert_last_updated_dump:
  "convert_key fromiso ''last_updated'' (model_dump w)
     = Inl (TypeError ''fromisoformat: argument must be str'')"
  by (simp add: convert_key_def model_dump_def bind_exc_def py_fromisoformat_def)

lemma has_python_tag_dump:
  "file_types w \<noteq> [] \<Longrightarrow> has_python_tag (model_dump w)"
  by (cases "file_types w") (simp_all add: model_dump_def)

lemma load_index_try_dump:
  "\<exists>e. load_index_try fromiso validate (Inr (yaml_dump (model_dump w))) = Inl e"
proof (cases "yaml_safe_load (yaml_dump (model_dump w))")
  case (Inl e)
  then show ?thesis by (simp add: load_index_try_def bind_exc_def)
next
  case (Inr v)
  then have "v = model_dump w"
    by (simp add: yaml_safe_load_def yaml_dump_def split: if_splits)
  with Inr show ?thesis
    by (simp add: load_index_try_def bind_exc_def convert_last_updated_dump)
qed

text \<open>
  Claim C1 does not hold of the code. After \<open>save_index\<close> has written any index,
  \<open>load_index\<close> prints an error and returns \<open>None\<close>, whatever the ISO parser and the
  validation of the model class do: the safe loader raises on the dumped members of
  \<open>FileType\<close> (present as soon as \<open>file_types\<close> is not empty, as in every index of
  \<open>create_index\<close>), and the conversion of \<open>last_updated\<close> raises on the dumped \<open>datetime\<close>.
\<close>

theorem save_then_load_returns_none:
  "(save_index st w = Inr st' \<longrightarrow>
      (\<exists>e. load_index fromiso validate st'
             = Inr ([''Error loading index: '' @ exc_str e], None)))
   \<and> (file_types w \<noteq> [] \<longrightarrow>
      yaml_safe_load (yaml_dump (model_dump w))
        = Inl (ConstructorError
                 (''could not determine a constructor for the tag '' @ squote @ FileType_tag
                    @ squote)))
   \<and> convert_key fromiso ''last_updated'' (model_dump w)
        = Inl (TypeError ''fromisoformat: argument must be str'')"
proof -
  have a: "\<exists>e. load_index fromiso validate st'
                 = Inr ([''Error loading index: '' @ exc_str e], None)"
    if "save_index st w = Inr st'"
  proof -
    from that have f: "index_file st' = Holds (yaml_dump (model_dump w))"
      by (auto simp: save_index_def split: option.splits)
    from load_index_try_dump[of fromiso validate w] obtain e where
      "load_index_try fromiso validate (Inr (yaml_dump (model_dump w))) = Inl e" by auto
    then show ?thesis using f load_index_failure by blast
  qed
  have b: "yaml_safe_load (yaml_dump (model_dump w))
        = Inl (ConstructorError
                 (''could not determine a constructor for the tag '' @ squote @ FileType_tag
                    @ squote))"
    if "file_types w \<noteq> []"
    using has_python_tag_dump[OF that] by (simp add: yaml_safe_load_def yaml_dump_def)
  from a b convert_last_updated_dump show ?thesis by fastforce
qed

theorem save_then_load_returns_none_witness:
  "save_index \<lparr>write_error = None, index_file = Missing\<rparr> test_index
     = Inr \<lparr>write_error = None, index_file = Holds (yaml_dump (model_dump test_index))\<rparr>
   \<and> (\<exists>e. load_index (\<lambda>s. Inr (Datetime 2024 1 1 12 0 0 0)) (\<lambda>args. Inr test_index)
          \<lparr>write_error = None, index_file = Holds (yaml_dump (model_dump test_index))\<rparr>
        = Inr ([''Error loading index: '' @ exc_str e], None))
   \<and> file_types test_index \<noteq> []
   \<and> yaml_safe_load (yaml_dump (model_dump test_index))
        = Inl (ConstructorError
                 (''could not determine a constructor for the tag '' @ squote @ FileType_tag
                    @ squote))"
proof -
  have s: "save_index \<lparr>write_error = None, index_file = Missing\<rparr> test_index
     = Inr \<lparr>write_error = None, index_file = Holds (yaml_dump (model_dump test_index))\<rparr>"
    by (simp add: save_index_def)
  have f: "file_types test_index \<noteq> []"
    by code_simp
  from s f
    save_then_load_returns_none[where st="\<lparr>write_error = None, index_file = Missing\<rparr>"
      and w=test_index
      and st'="\<lparr>write_error = None, index_file = Holds (yaml_dump (model_dump test_index))\<rparr>"
      and fromiso="\<lambda>s. Inr (Datetime 2024 1 1 12 0 0 0)" and validate="\<lambda>args. Inr test_index"]
  show ?thesis by blast
qed


end
